theory Spec2Isabelle
  imports Main "HOL-Library.Word"
begin

section \<open>Byte strings\<close>

text \<open>
  Python \<open>bytes\<close> values are lists of 8-bit words, Python \<open>str\<close> values are
  \<open>string\<close>s.  Only the operations that \<open>api.py\<close> applies to them are modelled.
\<close>

type_synonym byte = "8 word"
type_synonym bytes = "byte list"

text \<open>\<open>bytes.lower()\<close>: the ASCII capitals \<open>A\<close>..\<open>Z\<close> (65..90) move to \<open>a\<close>..\<open>z\<close>.\<close>

definition lower_byte :: "byte \<Rightarrow> byte" where
  "lower_byte b = (if 65 \<le> b \<and> b \<le> 90 then b + 32 else b)"

definition lower :: "bytes \<Rightarrow> bytes" where
  "lower bs = map lower_byte bs"

text \<open>\<open>bytes.lstrip(b"/")\<close>: every leading byte 47 is removed.\<close>

definition lstrip_slash :: "bytes \<Rightarrow> bytes" where
  "lstrip_slash bs = dropWhile (\<lambda>b. b = 47) bs"

text \<open>\<open>str.encode()\<close> (UTF-8) on code points below 256.\<close>

definition encode_char :: "char \<Rightarrow> bytes" where
  "encode_char c =
     (let n = of_char c :: nat
      in if n < 128 then [of_nat n] else [of_nat (192 + n div 64), of_nat (128 + n mod 64)])"

definition encode :: "string \<Rightarrow> bytes" where
  "encode s = concat (map encode_char s)"

text \<open>\<open>hexdigest()\<close>: two lowercase hexadecimal digits per digest byte.\<close>

definition lower_hexdigits :: string where
  "lower_hexdigits = ''0123456789abcdef''"

definition hex_digit :: "nat \<Rightarrow> char" where
  "hex_digit n = lower_hexdigits ! n"

definition hex_byte :: "byte \<Rightarrow> string" where
  "hex_byte b = [hex_digit (unat b div 16), hex_digit (unat b mod 16)]"

definition hexdigest :: "bytes \<Rightarrow> string" where
  "hexdigest d = concat (map hex_byte d)"

section \<open>Constants and library primitives\<close>

text \<open>
  \<open>BikaConstants\<close> and the hash functions of \<open>hashlib\<close>/\<open>hmac\<close> are not part of
  \<open>api.py\<close>; they are parameters of the model: \<open>md5\<close> maps a message to its digest,
  \<open>hmac_sha256 key msg\<close> is the digest of \<open>hmac.new(key, msg, hashlib.sha256)\<close>.
\<close>

record crypto =
  DIGEST_KEY :: bytes
  API_KEY :: bytes
  md5 :: "bytes \<Rightarrow> bytes"
  hmac_sha256 :: "bytes \<Rightarrow> bytes \<Rightarrow> bytes"

record URL =
  raw_path :: bytes

section \<open>The signer\<close>

definition sign :: "'c crypto_scheme \<Rightarrow> 'u URL_scheme \<Rightarrow> bytes \<Rightarrow> bytes \<Rightarrow> bytes \<Rightarrow> string" where
  "sign k url timestamp_bytes nonce method =
     hexdigest (hmac_sha256 k (DIGEST_KEY k)
       (lower (lstrip_slash (raw_path url) @ timestamp_bytes @ nonce @ method @ API_KEY k)))"


section \<open>Values, errors and collaborators\<close>

datatype ImageQuality = low | medium | high | original

fun ImageQuality_value :: "ImageQuality \<Rightarrow> string" where
  "ImageQuality_value low = ''low''"
| "ImageQuality_value medium = ''medium''"
| "ImageQuality_value high = ''high''"
| "ImageQuality_value original = ''original''"

datatype ResultSort = date_descending | date_ascending | like_descending | views_descending

fun ResultSort_value :: "ResultSort \<Rightarrow> string" where
  "ResultSort_value date_descending = ''dd''"
| "ResultSort_value date_ascending = ''da''"
| "ResultSort_value like_descending = ''ld''"
| "ResultSort_value views_descending = ''vd''"

text \<open>
  The values that \<open>api.py\<close> puts into \<open>params\<close> and \<open>body\<close> dictionaries
  (\<open>Dict[str, Any]\<close>): strings, integers and \<open>ResultSort\<close> members.  A dictionary
  literal is an association list in the order it is written.
\<close>

datatype pyval = PStr string | PInt int | PSort ResultSort

type_synonym pydict = "(string \<times> pyval) list"

text \<open>Header values are \<open>str\<close> (Authorization, Image-Quality, Signature) or
  \<open>bytes\<close> (Time, Nonce).\<close>

datatype hval = HStr string | HBytes bytes

type_synonym headers = "(string \<times> hval) list"

text \<open>
  Exceptions are values.  \<open>TransportFailure\<close> stands for what the HTTP client raises
  by itself; the other kinds are those of the error taxonomy.
\<close>

datatype transport_failure = ConnectionRefused | Timeout | MalformedResponse

datatype error =
    TransportFailure transport_failure
  | NetworkError
  | DecodeError
  | AuthError
  | BuildError

text \<open>What a call of \<open>request\<close> does to the outside: the calls it makes itself.\<close>

datatype event =
    Login
  | Get URL headers
  | Post URL headers pydict

text \<open>
  The mutable state: \<open>net_client.token\<close>, everything behind the collaborators
  (\<open>world\<close>), and the log of calls made so far.
\<close>

record 'w state =
  token :: "string option"
  world :: 'w
  trace :: "event list"

text \<open>
  The collaborators that \<open>api.py\<close> imports: \<open>BikaConstants.API_HOST\<close>,
  \<open>BaseEndpoint._join\<close>, \<open>NetRequest.login\<close>, the HTTP client's \<open>get\<close> and
  \<open>post\<close>, and \<open>response.json()\<close>.  Each may raise; \<open>login\<close> may assign the
  token; \<open>login\<close>, \<open>get\<close> and \<open>post\<close> act on the world, and what they did there
  stays done when they raise.
\<close>

record ('w, 'r, 'j) env = crypto +
  API_HOST :: string
  join :: "string \<Rightarrow> string \<Rightarrow> pydict \<Rightarrow> error + URL"
  login :: "string option \<Rightarrow> 'w \<Rightarrow> (error + unit) \<times> string option \<times> 'w"
  client_get :: "URL \<Rightarrow> headers \<Rightarrow> 'w \<Rightarrow> (error + 'r) \<times> 'w"
  client_post :: "URL \<Rightarrow> headers \<Rightarrow> pydict \<Rightarrow> 'w \<Rightarrow> (error + 'r) \<times> 'w"
  json :: "'r \<Rightarrow> error + 'j"

text \<open>
  The ambient inputs of one call: the text \<open>f"{time():.0f}"\<close> that the clock gives when
  \<open>request\<close> reads it, and the dictionary \<open>request_headers.get()\<close>.
\<close>

record ctx =
  time_text :: string
  request_headers :: "string \<rightharpoonup> string"

section \<open>The request pipeline\<close>

text \<open>A bytes literal such as \<open>b"GET"\<close>.\<close>

definition ascii :: "string \<Rightarrow> bytes" where
  "ascii s = map (\<lambda>c. of_nat (of_char c)) s"

text \<open>\<open>await net_client.login(self)\<close>: the call is logged, then \<open>login\<close> runs.\<close>

definition call_login :: "('w, 'r, 'j, 'x) env_scheme \<Rightarrow> 'w state \<Rightarrow> (error + unit) \<times> 'w state" where
  "call_login env s =
     (case login env (token s) (world s) of
        (r, tok, w) \<Rightarrow> (r, s\<lparr>token := tok, world := w, trace := trace s @ [Login]\<rparr>))"

text \<open>The method bytes given to \<open>_sign\<close>: \<open>b"GET" if body is None else b"POST"\<close>.\<close>

definition method_bytes :: "pydict option \<Rightarrow> bytes" where
  "method_bytes body = (if body = None then ascii ''GET'' else ascii ''POST'')"

text \<open>
  The \<open>headers\<close> dictionary, given the token read from the client, the URL that
  \<open>_join\<close> returned and the body.
\<close>

definition build_headers ::
  "('w, 'r, 'j, 'x) env_scheme \<Rightarrow> ctx \<Rightarrow> string option \<Rightarrow> URL \<Rightarrow> pydict option \<Rightarrow> headers" where
  "build_headers env cx tok request_url body =
     (let current_time = encode (time_text cx);
          nonce = encode (hexdigest (md5 env current_time))
      in [(''Authorization'', HStr (case tok of None \<Rightarrow> [] | Some t \<Rightarrow> t)),
          (''Time'', HBytes current_time),
          (''Image-Quality'',
             HStr (case request_headers cx ''X-Image-Quality'' of
                     None \<Rightarrow> ImageQuality_value medium
                   | Some q \<Rightarrow> q)),
          (''Nonce'', HBytes nonce),
          (''Signature'', HStr (sign env request_url current_time nonce (method_bytes body)))])"

text \<open>
  \<open>self.client.get(request_url, headers=headers)\<close> if \<open>body is None\<close>, else
  \<open>self.client.post(request_url, headers=headers, json=body)\<close>; the call is logged.
\<close>

definition transport ::
  "('w, 'r, 'j, 'x) env_scheme \<Rightarrow> URL \<Rightarrow> headers \<Rightarrow> pydict option \<Rightarrow> 'w state \<Rightarrow> (error + 'r) \<times> 'w state" where
  "transport env request_url hs body s =
     (case body of
        None \<Rightarrow>
          (case client_get env request_url hs (world s) of
             (r, w) \<Rightarrow> (r, s\<lparr>world := w, trace := trace s @ [Get request_url hs]\<rparr>))
      | Some b \<Rightarrow>
          (case client_post env request_url hs b (world s) of
             (r, w) \<Rightarrow> (r, s\<lparr>world := w, trace := trace s @ [Post request_url hs b]\<rparr>)))"

text \<open>The body of \<open>BikaEndpoints.request\<close>, without its two decorators.\<close>

definition request_raw ::
  "('w, 'r, 'j, 'x) env_scheme \<Rightarrow> ctx \<Rightarrow> string \<Rightarrow> pydict option \<Rightarrow> pydict option \<Rightarrow> bool
     \<Rightarrow> 'w state \<Rightarrow> (error + 'j) \<times> 'w state" where
  "request_raw env cx endpoint params body no_token s =
     (case (if token s = None \<and> \<not> no_token then call_login env s else (Inr (), s)) of
        (Inl e, s1) \<Rightarrow> (Inl e, s1)
      | (Inr _, s1) \<Rightarrow>
          (case join env (API_HOST env) endpoint (case params of None \<Rightarrow> [] | Some p \<Rightarrow> p) of
             Inl e \<Rightarrow> (Inl e, s1)
           | Inr request_url \<Rightarrow>
               (case transport env request_url
                       (build_headers env cx (token s1) request_url body) body s1 of
                  (Inl e, s2) \<Rightarrow> (Inl e, s2)
                | (Inr response, s2) \<Rightarrow> (json env response, s2))))"

text \<open>
  Modelled from the spec: \<open>catch_network_error\<close> of \<open>hibiapi.utils.net\<close>, which is
  not in \<open>api.py\<close>.  Any transport-level failure of the wrapped call is caught and
  raised again as the one network-error kind; every other error passes unchanged.
\<close>

definition catch_network_error ::
  "('s \<Rightarrow> (error + 'a) \<times> 's) \<Rightarrow> 's \<Rightarrow> (error + 'a) \<times> 's" where
  "catch_network_error f s =
     (case f s of
        (Inl (TransportFailure tf), s') \<Rightarrow> (Inl NetworkError, s')
      | (r, s') \<Rightarrow> (r, s'))"

text \<open>\<open>request\<close> as the class has it, under \<open>@catch_network_error\<close>.  The outer
  \<open>@disable_cache\<close> is its cache declaration, given with the cache layer below.\<close>

definition request ::
  "('w, 'r, 'j, 'x) env_scheme \<Rightarrow> ctx \<Rightarrow> string \<Rightarrow> pydict option \<Rightarrow> pydict option \<Rightarrow> bool
     \<Rightarrow> 'w state \<Rightarrow> (error + 'j) \<times> 'w state" where
  "request env cx endpoint params body no_token =
     catch_network_error (request_raw env cx endpoint params body no_token)"

section \<open>The exposed operations\<close>

text \<open>Each method of \<open>BikaEndpoints\<close> below \<open>request\<close>, with its keyword arguments
  (the method \<open>keywords\<close> is \<open>keywords_op\<close> here, the parameter \<open>id\<close> is \<open>ident\<close>).\<close>

definition collections ::
  "('w, 'r, 'j, 'x) env_scheme \<Rightarrow> ctx \<Rightarrow> 'w state \<Rightarrow> (error + 'j) \<times> 'w state" where
  "collections env cx = request env cx ''collections'' None None False"

definition categories ::
  "('w, 'r, 'j, 'x) env_scheme \<Rightarrow> ctx \<Rightarrow> 'w state \<Rightarrow> (error + 'j) \<times> 'w state" where
  "categories env cx = request env cx ''categories'' None None False"

definition keywords_op ::
  "('w, 'r, 'j, 'x) env_scheme \<Rightarrow> ctx \<Rightarrow> 'w state \<Rightarrow> (error + 'j) \<times> 'w state" where
  "keywords_op env cx = request env cx ''keywords'' None None False"

definition advanced_search ::
  "('w, 'r, 'j, 'x) env_scheme \<Rightarrow> ctx \<Rightarrow> string \<Rightarrow> int \<Rightarrow> ResultSort
     \<Rightarrow> 'w state \<Rightarrow> (error + 'j) \<times> 'w state" where
  "advanced_search env cx keyword page sort' =
     request env cx ''comics/advanced-search'' None
       (Some [(''keyword'', PStr keyword), (''page'', PInt page), (''sort'', PSort sort')]) False"

definition category_list ::
  "('w, 'r, 'j, 'x) env_scheme \<Rightarrow> ctx \<Rightarrow> string \<Rightarrow> int \<Rightarrow> ResultSort
     \<Rightarrow> 'w state \<Rightarrow> (error + 'j) \<times> 'w state" where
  "category_list env cx category page sort' =
     request env cx ''comics''
       (Some [(''page'', PInt page), (''c'', PStr category), (''s'', PSort sort')]) None False"

definition author_list ::
  "('w, 'r, 'j, 'x) env_scheme \<Rightarrow> ctx \<Rightarrow> string \<Rightarrow> int \<Rightarrow> ResultSort
     \<Rightarrow> 'w state \<Rightarrow> (error + 'j) \<times> 'w state" where
  "author_list env cx author page sort' =
     request env cx ''comics''
       (Some [(''page'', PInt page), (''a'', PStr author), (''s'', PSort sort')]) None False"

definition comic_detail ::
  "('w, 'r, 'j, 'x) env_scheme \<Rightarrow> ctx \<Rightarrow> string \<Rightarrow> 'w state \<Rightarrow> (error + 'j) \<times> 'w state" where
  "comic_detail env cx ident =
     request env cx ''comics/{id}'' (Some [(''id'', PStr ident)]) None False"

definition comic_recommendation ::
  "('w, 'r, 'j, 'x) env_scheme \<Rightarrow> ctx \<Rightarrow> string \<Rightarrow> 'w state \<Rightarrow> (error + 'j) \<times> 'w state" where
  "comic_recommendation env cx ident =
     request env cx ''comics/{id}/recommendation'' (Some [(''id'', PStr ident)]) None False"

definition comic_episodes ::
  "('w, 'r, 'j, 'x) env_scheme \<Rightarrow> ctx \<Rightarrow> string \<Rightarrow> int \<Rightarrow> 'w state \<Rightarrow> (error + 'j) \<times> 'w state" where
  "comic_episodes env cx ident page =
     request env cx ''comics/{id}/eps''
       (Some [(''id'', PStr ident), (''page'', PInt page)]) None False"

definition comic_page ::
  "('w, 'r, 'j, 'x) env_scheme \<Rightarrow> ctx \<Rightarrow> string \<Rightarrow> int \<Rightarrow> int
     \<Rightarrow> 'w state \<Rightarrow> (error + 'j) \<times> 'w state" where
  "comic_page env cx ident order page =
     request env cx ''comics/{id}/order/{order}/pages''
       (Some [(''id'', PStr ident), (''order'', PInt order), (''page'', PInt page)]) None False"

definition comic_comments ::
  "('w, 'r, 'j, 'x) env_scheme \<Rightarrow> ctx \<Rightarrow> string \<Rightarrow> int \<Rightarrow> 'w state \<Rightarrow> (error + 'j) \<times> 'w state" where
  "comic_comments env cx ident page =
     request env cx ''comics/{id}/comments''
       (Some [(''id'', PStr ident), (''page'', PInt page)]) None False"

definition games ::
  "('w, 'r, 'j, 'x) env_scheme \<Rightarrow> ctx \<Rightarrow> int \<Rightarrow> 'w state \<Rightarrow> (error + 'j) \<times> 'w state" where
  "games env cx page = request env cx ''games'' (Some [(''page'', PInt page)]) None False"

definition game_detail ::
  "('w, 'r, 'j, 'x) env_scheme \<Rightarrow> ctx \<Rightarrow> string \<Rightarrow> 'w state \<Rightarrow> (error + 'j) \<times> 'w state" where
  "game_detail env cx ident =
     request env cx ''games/{id}'' (Some [(''id'', PStr ident)]) None False"

text \<open>
  One call of an exposed operation: the operation (a member of \<open>EndpointsType\<close>) with
  its argument values.
\<close>

datatype endpoint_call =
    Collections
  | Categories
  | Keywords
  | Advanced_search string int ResultSort
  | Category_list string int ResultSort
  | Author_list string int ResultSort
  | Comic_detail string
  | Comic_recommendation string
  | Comic_episodes string int
  | Comic_page string int int
  | Comic_comments string int
  | Games int
  | Game_detail string

fun invoke ::
  "('w, 'r, 'j, 'x) env_scheme \<Rightarrow> ctx \<Rightarrow> endpoint_call \<Rightarrow> 'w state \<Rightarrow> (error + 'j) \<times> 'w state" where
  "invoke env cx Collections = collections env cx"
| "invoke env cx Categories = categories env cx"
| "invoke env cx Keywords = keywords_op env cx"
| "invoke env cx (Advanced_search keyword page sort') = advanced_search env cx keyword page sort'"
| "invoke env cx (Category_list category page sort') = category_list env cx category page sort'"
| "invoke env cx (Author_list author page sort') = author_list env cx author page sort'"
| "invoke env cx (Comic_detail ident) = comic_detail env cx ident"
| "invoke env cx (Comic_recommendation ident) = comic_recommendation env cx ident"
| "invoke env cx (Comic_episodes ident page) = comic_episodes env cx ident page"
| "invoke env cx (Comic_page ident order page) = comic_page env cx ident order page"
| "invoke env cx (Comic_comments ident page) = comic_comments env cx ident page"
| "invoke env cx (Games page) = games env cx page"
| "invoke env cx (Game_detail ident) = game_detail env cx ident"

fun is_advanced_search :: "endpoint_call \<Rightarrow> bool" where
  "is_advanced_search (Advanced_search keyword page sort') = True"
| "is_advanced_search c = False"

section \<open>Cache declarations and the cache layer\<close>

text \<open>
  The decorators of \<open>api.py\<close>: \<open>@cache_config(ttl=timedelta(days=n))\<close>,
  \<open>@disable_cache\<close>, or none.  A \<open>timedelta\<close> is counted in seconds.
\<close>

datatype cache_decl = No_decl | Cache_ttl nat | Cache_disabled

definition timedelta_days :: "nat \<Rightarrow> nat" where
  "timedelta_days n = n * 86400"

fun declared_cache :: "endpoint_call \<Rightarrow> cache_decl" where
  "declared_cache Collections = Cache_ttl (timedelta_days 1)"
| "declared_cache Categories = Cache_ttl (timedelta_days 3)"
| "declared_cache Keywords = Cache_ttl (timedelta_days 3)"
| "declared_cache (Comic_detail ident) = Cache_ttl (timedelta_days 3)"
| "declared_cache (Game_detail ident) = Cache_ttl (timedelta_days 3)"
| "declared_cache c = No_decl"

definition request_cache :: cache_decl where
  "request_cache = Cache_disabled"

text \<open>
  Modelled from the spec: the cache layer of \<open>hibiapi.utils.cache\<close> behind
  \<open>cache_config\<close> and \<open>disable_cache\<close>, which is not in \<open>api.py\<close>.  An entry maps a
  key (operation and argument values) to a value and its expiry time.  With a TTL \<open>T\<close>:
  on a hit before the expiry the stored value is returned and the operation is not run;
  on a miss, or on an expired entry (which is evicted), the operation is run and its
  result stored with expiry \<open>now + T\<close>.  Without a TTL, and when the cache is disabled,
  the operation is always run and nothing is stored.  An error is passed on, not stored.
\<close>

type_synonym ('k, 'v) cache = "'k \<rightharpoonup> 'v \<times> nat"

definition run_and_store ::
  "nat \<Rightarrow> 'k \<Rightarrow> nat \<Rightarrow> ('s \<Rightarrow> (error + 'v) \<times> 's) \<Rightarrow> ('k, 'v) cache \<Rightarrow> 's
     \<Rightarrow> (error + 'v) \<times> ('k, 'v) cache \<times> 's" where
  "run_and_store T key now op c s =
     (case op s of
        (Inr v, s') \<Rightarrow> (Inr v, c(key \<mapsto> (v, now + T)), s')
      | (Inl e, s') \<Rightarrow> (Inl e, c, s'))"

definition cached ::
  "cache_decl \<Rightarrow> 'k \<Rightarrow> nat \<Rightarrow> ('s \<Rightarrow> (error + 'v) \<times> 's) \<Rightarrow> ('k, 'v) cache \<times> 's
     \<Rightarrow> (error + 'v) \<times> ('k, 'v) cache \<times> 's" where
  "cached d key now op cs =
     (case cs of (c, s) \<Rightarrow>
        (case d of
           Cache_ttl T \<Rightarrow>
             (case c key of
                Some (v, expiry) \<Rightarrow>
                  if now < expiry then (Inr v, c, s)
                  else run_and_store T key now op (c(key := None)) s
              | None \<Rightarrow> run_and_store T key now op c s)
         | No_decl \<Rightarrow> (case op s of (r, s') \<Rightarrow> (r, c, s'))
         | Cache_disabled \<Rightarrow> (case op s of (r, s') \<Rightarrow> (r, c, s'))))"

text \<open>An exposed operation, and \<open>request\<close> itself, as callers reach them: through the
  cache layer, under their declarations.\<close>

definition cached_call ::
  "('w, 'r, 'j, 'x) env_scheme \<Rightarrow> ctx \<Rightarrow> nat \<Rightarrow> endpoint_call
     \<Rightarrow> (endpoint_call, 'j) cache \<times> 'w state
     \<Rightarrow> (error + 'j) \<times> (endpoint_call, 'j) cache \<times> 'w state" where
  "cached_call env cx now c = cached (declared_cache c) c now (invoke env cx c)"

definition cached_request ::
  "('w, 'r, 'j, 'x) env_scheme \<Rightarrow> ctx \<Rightarrow> nat \<Rightarrow> string \<Rightarrow> pydict option \<Rightarrow> pydict option \<Rightarrow> bool
     \<Rightarrow> (string \<times> pydict option \<times> pydict option \<times> bool, 'j) cache \<times> 'w state
     \<Rightarrow> (error + 'j) \<times> (string \<times> pydict option \<times> pydict option \<times> bool, 'j) cache \<times> 'w state" where
  "cached_request env cx now endpoint params body no_token =
     cached request_cache (endpoint, params, body, no_token) now
       (request env cx endpoint params body no_token)"

section \<open>Observing a call\<close>

text \<open>The calls that running \<open>f\<close> from state \<open>s\<close> adds to the log.\<close>

definition issued :: "('w state \<Rightarrow> 'a \<times> 'w state) \<Rightarrow> 'w state \<Rightarrow> event list" where
  "issued f s = drop (length (trace s)) (trace (snd (f s)))"

fun is_transport :: "event \<Rightarrow> bool" where
  "is_transport Login = False"
| "is_transport (Get u hs) = True"
| "is_transport (Post u hs b) = True"

fun is_get :: "event \<Rightarrow> bool" where
  "is_get (Get u hs) = True"
| "is_get e = False"

fun is_post :: "event \<Rightarrow> bool" where
  "is_post (Post u hs b) = True"
| "is_post e = False"

fun event_headers :: "event \<Rightarrow> headers" where
  "event_headers Login = []"
| "event_headers (Get u hs) = hs"
| "event_headers (Post u hs b) = hs"

text \<open>The value of a header in a transport call (\<open>None\<close> for a call without it).\<close>

definition header :: "string \<Rightarrow> event \<Rightarrow> hval option" where
  "header name e = map_of (event_headers e) name"

text \<open>Whether the login step of \<open>request\<close> lets the call go on: it is skipped, or
  \<open>login\<close> returns.  And the token that the client holds after that step.\<close>

definition login_passes :: "('w, 'r, 'j, 'x) env_scheme \<Rightarrow> bool \<Rightarrow> 'w state \<Rightarrow> bool" where
  "login_passes env no_token s =
     (if token s = None \<and> \<not> no_token then fst (login env (token s) (world s)) = Inr () else True)"

definition token_after_login :: "('w, 'r, 'j, 'x) env_scheme \<Rightarrow> bool \<Rightarrow> 'w state \<Rightarrow> string option" where
  "token_after_login env no_token s =
     (if token s = None \<and> \<not> no_token then fst (snd (login env (token s) (world s))) else token s)"

section \<open>A test double\<close>

text \<open>
  Collaborators simple enough to run the model on concrete inputs: the hash functions
  show their input (\<open>md5\<close> reverses it, the HMAC is key followed by message), \<open>_join\<close>
  puts a slash before the endpoint and raises on an empty one, \<open>login\<close> stores the
  token \<open>tok\<close>, the HTTP client counts its calls in the world and answers with a fixed
  text, and \<open>json\<close> returns the text.
\<close>

definition example_env :: "(nat, string, string) env" where
  "example_env =
     \<lparr>DIGEST_KEY = ascii ''k'', API_KEY = ascii ''aZ'',
      md5 = rev, hmac_sha256 = (\<lambda>key msg. key @ msg),
      API_HOST = ''https://api.example'',
      join = (\<lambda>base endpoint params.
                if endpoint = [] then Inl BuildError else Inr \<lparr>raw_path = ascii (''/'' @ endpoint)\<rparr>),
      login = (\<lambda>tok w. (Inr (), Some ''tok'', w)),
      client_get = (\<lambda>u hs w. (Inr ''got'', Suc w)),
      client_post = (\<lambda>u hs b w. (Inr ''posted'', Suc w)),
      json = (\<lambda>r. Inr r)\<rparr>"

definition example_ctx :: ctx where
  "example_ctx = \<lparr>time_text = ''1700000001'', request_headers = Map.empty\<rparr>"

definition example_state :: "nat state" where
  "example_state = \<lparr>token = None, world = 0, trace = []\<rparr>"

text \<open>The same context with a caller's \<open>X-Image-Quality\<close> header, a state that holds
  a token already, and collaborators that raise: a \<open>get\<close> and \<open>post\<close> that fail at the
  transport level without reaching the server, a response that is not JSON, and a login
  that is rejected and leaves the token unset.\<close>

definition example_ctx_quality :: "string \<Rightarrow> ctx" where
  "example_ctx_quality q = example_ctx\<lparr>request_headers := [''X-Image-Quality'' \<mapsto> q]\<rparr>"

definition example_state_token :: "string \<Rightarrow> nat state" where
  "example_state_token t = example_state\<lparr>token := Some t\<rparr>"

definition failing_env :: "transport_failure \<Rightarrow> (nat, string, string) env" where
  "failing_env tf =
     example_env\<lparr>client_get := (\<lambda>u hs w. (Inl (TransportFailure tf), w)),
                 client_post := (\<lambda>u hs b w. (Inl (TransportFailure tf), w))\<rparr>"

definition undecodable_env :: "(nat, string, string) env" where
  "undecodable_env = example_env\<lparr>json := (\<lambda>r. Inl DecodeError)\<rparr>"

definition rejecting_env :: "(nat, string, string) env" where
  "rejecting_env = example_env\<lparr>login := (\<lambda>tok w. (Inl AuthError, tok, w))\<rparr>"

text \<open>The state in which \<open>request\<close> builds its headers: after the login step.\<close>

definition state_after_login :: "('w, 'r, 'j, 'x) env_scheme \<Rightarrow> bool \<Rightarrow> 'w state \<Rightarrow> 'w state" where
  "state_after_login env no_token s =
     (if token s = None \<and> \<not> no_token then snd (call_login env s) else s)"

section \<open>Properties of the byte operations\<close>

lemma lower_byte_idem: "lower_byte (lower_byte b) = lower_byte b"
  unfolding lower_byte_def by (simp add: word_le_nat_alt unat_word_ariths)

lemma lower_byte_slash: "lower_byte b = 47 \<longleftrightarrow> b = 47"
  unfolding lower_byte_def by (auto simp add: word_le_nat_alt)

lemma lower_append: "lower (xs @ ys) = lower xs @ lower ys"
  by (simp add: lower_def)

lemma lower_idem: "lower (lower xs) = lower xs"
  by (simp add: lower_def lower_byte_idem)

lemma lstrip_slash_lower: "lstrip_slash (lower bs) = lower (lstrip_slash bs)"
  unfolding lstrip_slash_def lower_def
  by (induction bs) (simp_all add: lower_byte_slash)

lemma lstrip_slash_no_leading: "lstrip_slash bs = b # rest \<Longrightarrow> b \<noteq> 47"
  unfolding lstrip_slash_def using hd_dropWhile [of "\<lambda>b. b = 47" bs] by auto

lemma lstrip_slash_suffix: "\<exists>n. bs = replicate n 47 @ lstrip_slash bs"
proof (induction bs)
  case Nil
  show ?case by (simp add: lstrip_slash_def)
next
  case (Cons b bs)
  show ?case
  proof (cases "b = 47")
    case True
    from Cons obtain n where "bs = replicate n 47 @ lstrip_slash bs" by blast
    then have "b # bs = replicate (Suc n) 47 @ lstrip_slash (b # bs)"
      using True by (simp add: lstrip_slash_def)
    then show ?thesis by blast
  next
    case False
    then have "b # bs = replicate 0 47 @ lstrip_slash (b # bs)"
      by (simp add: lstrip_slash_def)
    then show ?thesis by blast
  qed
qed

lemma hex_digit_range: "n < 16 \<Longrightarrow> hex_digit n \<in> set lower_hexdigits"
  unfolding hex_digit_def by (rule nth_mem) (simp add: lower_hexdigits_def)

lemma hex_byte_range: "set (hex_byte b) \<subseteq> set lower_hexdigits"
proof -
  have "unat b < 256" using unsigned_less [of b, where 'a = nat] by simp
  then have "unat b div 16 < 16" by simp
  moreover have "unat b mod 16 < 16" by simp
  ultimately show ?thesis
    unfolding hex_byte_def using hex_digit_range by simp
qed

lemma hexdigest_range: "set (hexdigest d) \<subseteq> set lower_hexdigits"
  unfolding hexdigest_def using hex_byte_range by (induction d) auto

lemma hexdigest_length: "length (hexdigest d) = 2 * length d"
  unfolding hexdigest_def by (induction d) (simp_all add: hex_byte_def)

lemma lower_no_capitals: "list_all (\<lambda>b. b < 65 \<or> 90 < b) (lower bs)"
proof -
  have "lower_byte b < 65 \<or> 90 < lower_byte b" for b
    unfolding lower_byte_def by (auto simp add: word_le_nat_alt word_less_nat_alt unat_word_ariths)
  then show ?thesis by (simp add: lower_def list_all_iff)
qed

lemma lower_length: "length (lower bs) = length bs"
  by (simp add: lower_def)

lemma lstrip_slash_take: "take 1 (lstrip_slash bs) \<noteq> [47]"
proof (cases "lstrip_slash bs")
  case Nil
  then show ?thesis by simp
next
  case (Cons b rest)
  then show ?thesis using lstrip_slash_no_leading [OF Cons] by simp
qed

lemma hex_digit_inj: "i < 16 \<Longrightarrow> j < 16 \<Longrightarrow> hex_digit i = hex_digit j \<Longrightarrow> i = j"
proof -
  have d: "distinct lower_hexdigits" by (simp add: lower_hexdigits_def)
  have l: "length lower_hexdigits = 16" by (simp add: lower_hexdigits_def)
  show "i < 16 \<Longrightarrow> j < 16 \<Longrightarrow> hex_digit i = hex_digit j \<Longrightarrow> i = j"
    unfolding hex_digit_def using d l by (simp add: nth_eq_iff_index_eq)
qed

lemma hex_byte_inj: "hex_byte a = hex_byte b \<Longrightarrow> a = b"
proof -
  assume eq: "hex_byte a = hex_byte b"
  have a: "unat a < 256" using unsigned_less [of a, where 'a = nat] by simp
  have b: "unat b < 256" using unsigned_less [of b, where 'a = nat] by simp
  from eq have "hex_digit (unat a div 16) = hex_digit (unat b div 16)"
    and "hex_digit (unat a mod 16) = hex_digit (unat b mod 16)"
    by (simp_all add: hex_byte_def)
  then have "unat a div 16 = unat b div 16" and "unat a mod 16 = unat b mod 16"
    using a b by (auto intro: hex_digit_inj)
  then have "unat a = unat b"
    by (metis div_mult_mod_eq)
  then show "a = b" by (simp add: word_unat_eq_iff)
qed

lemma hexdigest_inj: "hexdigest d = hexdigest d' \<Longrightarrow> d = d'"
proof (induction d arbitrary: d')
  case Nil
  then show ?case by (cases d') (simp_all add: hexdigest_def hex_byte_def)
next
  case (Cons a d)
  show ?case
  proof (cases d')
    case Nil
    with Cons.prems show ?thesis by (simp add: hexdigest_def hex_byte_def)
  next
    case (Cons b e)
    with Cons.prems have "hex_byte a @ hexdigest d = hex_byte b @ hexdigest e"
      by (simp add: hexdigest_def)
    moreover have "length (hex_byte a) = length (hex_byte b)" by (simp add: hex_byte_def)
    ultimately have "hex_byte a = hex_byte b" and "hexdigest d = hexdigest e" by simp_all
    then show ?thesis using Cons.IH hex_byte_inj Cons by simp
  qed
qed

section \<open>The signature\<close>

lemma sign_example:
  "sign example_env \<lparr>raw_path = ascii ''//Comics/ABC?q=Z''\<rparr> (ascii ''17'') (ascii ''N'') (ascii ''GET'')
     = ''6b636f6d6963732f6162633f713d7a31376e676574617a''"
  by (simp add: sign_def example_env_def ascii_def lstrip_slash_def lower_def lower_byte_def
      hexdigest_def hex_byte_def hex_digit_def lower_hexdigits_def)

lemma byte_examples:
  "lower (ascii ''AZ@[`{az09'') = ascii ''az@[`{az09''"
  "lower [0xC0, 0xDE, 0xFF] = [0xC0, 0xDE, 0xFF]"
  "lstrip_slash (ascii ''//Comics/ABC?q=Z'') = ascii ''Comics/ABC?q=Z''"
  "hexdigest [0x00, 0x0F, 0xA5, 0xFF] = ''000fa5ff''"
  "hexdigest (ascii ''kcomics/abc?q=z17ngetaz'') = ''6b636f6d6963732f6162633f713d7a31376e676574617a''"
  by (simp_all add: ascii_def lstrip_slash_def lower_def lower_byte_def
      hexdigest_def hex_byte_def hex_digit_def lower_hexdigits_def)

text \<open>
  Claim C1.  \<open>_sign\<close> returns the hexadecimal rendering, two digits of
  \<open>0123456789abcdef\<close> per digest byte, of the HMAC-SHA256 keyed by the digest key over
  the lower-cased concatenation of the URL's raw path without its leading slashes, the
  timestamp bytes, the nonce, the method and the API key; lower-casing the whole
  concatenation is lower-casing each part.  The stripped path is the raw path less a
  run of slashes and does not begin with one; the lower-cased message has the length of
  the message and holds no capital; the rendering determines the digest.  The signature
  does not depend on the case of the path: a path and its lower-cased form give the same
  digest, and so do any two paths that agree up to case.  On the test double, whose HMAC
  is key followed by message, signing the path \<open>//Comics/ABC?q=Z\<close> with timestamp
  \<open>17\<close>, nonce \<open>N\<close> and method \<open>GET\<close> gives the rendering of
  \<open>kcomics/abc?q=z17ngetaz\<close>.
\<close>

theorem sign_lowercased_hmac:
  "sign k url ts nonce m =
     hexdigest (hmac_sha256 k (DIGEST_KEY k)
       (lower (lstrip_slash (raw_path url)) @ lower ts @ lower nonce @ lower m @ lower (API_KEY k)))
   \<and> set (sign k url ts nonce m) \<subseteq> set lower_hexdigits
   \<and> sign k (url\<lparr>raw_path := lower (raw_path url)\<rparr>) ts nonce m = sign k url ts nonce m
   \<and> (lower (raw_path url) = lower (raw_path url') \<longrightarrow>
        sign k url ts nonce m = sign k url' ts nonce m)
   \<and> length (sign k url ts nonce m) =
        2 * length (hmac_sha256 k (DIGEST_KEY k)
              (lower (lstrip_slash (raw_path url) @ ts @ nonce @ m @ API_KEY k)))
   \<and> inj hexdigest
   \<and> (\<exists>n. raw_path url = replicate n 47 @ lstrip_slash (raw_path url))
   \<and> take 1 (lstrip_slash (raw_path url)) \<noteq> [47]
   \<and> length (lower bs) = length bs
   \<and> list_all (\<lambda>b. b < 65 \<or> 90 < b) (lower bs)
   \<and> lower (ascii ''AZ@[`{az09'') = ascii ''az@[`{az09''
   \<and> lower [0xC0, 0xDE, 0xFF] = [0xC0, 0xDE, 0xFF]
   \<and> lstrip_slash (ascii ''//Comics/ABC?q=Z'') = ascii ''Comics/ABC?q=Z''
   \<and> hexdigest [0x00, 0x0F, 0xA5, 0xFF] = ''000fa5ff''
   \<and> sign example_env \<lparr>raw_path = ascii ''//Comics/ABC?q=Z''\<rparr> (ascii ''17'') (ascii ''N'') (ascii ''GET'')
        = ''6b636f6d6963732f6162633f713d7a31376e676574617a''
   \<and> hexdigest (ascii ''kcomics/abc?q=z17ngetaz'') = ''6b636f6d6963732f6162633f713d7a31376e676574617a''"
proof -
  have eq: "lower (lstrip_slash (raw_path url)) = lower (lstrip_slash (raw_path url'))"
    if "lower (raw_path url) = lower (raw_path url')"
    using that lstrip_slash_lower by metis
  have general:
    "sign k url ts nonce m =
       hexdigest (hmac_sha256 k (DIGEST_KEY k)
         (lower (lstrip_slash (raw_path url)) @ lower ts @ lower nonce @ lower m @ lower (API_KEY k)))
     \<and> set (sign k url ts nonce m) \<subseteq> set lower_hexdigits
     \<and> sign k (url\<lparr>raw_path := lower (raw_path url)\<rparr>) ts nonce m = sign k url ts nonce m
     \<and> (lower (raw_path url) = lower (raw_path url') \<longrightarrow>
          sign k url ts nonce m = sign k url' ts nonce m)"
    unfolding sign_def
    using eq by (simp add: lower_append lstrip_slash_lower lower_idem hexdigest_range)
  have len: "length (sign k url ts nonce m) =
        2 * length (hmac_sha256 k (DIGEST_KEY k)
              (lower (lstrip_slash (raw_path url) @ ts @ nonce @ m @ API_KEY k)))"
    unfolding sign_def by (rule hexdigest_length)
  have inj: "inj hexdigest"
    by (rule injI) (rule hexdigest_inj)
  show ?thesis
    using general len inj lstrip_slash_suffix [of "raw_path url"]
      lstrip_slash_take [of "raw_path url"] lower_length [of bs] lower_no_capitals [of bs]
      byte_examples sign_example
    by blast
qed

theorem sign_lowercased_hmac_witness:
  "lower (raw_path \<lparr>raw_path = ascii ''/Comics/ABC''\<rparr>) = lower (raw_path \<lparr>raw_path = ascii ''/comics/abc''\<rparr>)
   \<and> sign example_env \<lparr>raw_path = ascii ''/Comics/ABC''\<rparr> (ascii ''17'') (ascii ''n'') (ascii ''GET'')
     = sign example_env \<lparr>raw_path = ascii ''/comics/abc''\<rparr> (ascii ''17'') (ascii ''n'') (ascii ''GET'')
   \<and> sign example_env \<lparr>raw_path = ascii ''/comics/abc''\<rparr> (ascii ''17'') (ascii ''n'') (ascii ''GET'')
     = ''6b636f6d6963732f61626331376e676574617a''"
proof -
  have h: "lower (raw_path \<lparr>raw_path = ascii ''/Comics/ABC''\<rparr>) = lower (raw_path \<lparr>raw_path = ascii ''/comics/abc''\<rparr>)"
    by (simp add: lower_def lower_byte_def ascii_def)
  have v: "sign example_env \<lparr>raw_path = ascii ''/comics/abc''\<rparr> (ascii ''17'') (ascii ''n'') (ascii ''GET'')
     = ''6b636f6d6963732f61626331376e676574617a''"
    by (simp add: sign_def example_env_def ascii_def lstrip_slash_def lower_def lower_byte_def
        hexdigest_def hex_byte_def hex_digit_def lower_hexdigits_def)
  show ?thesis
    using h v sign_lowercased_hmac [of example_env
        "\<lparr>raw_path = ascii ''/Comics/ABC''\<rparr>" "ascii ''17''" "ascii ''n''" "ascii ''GET''"
        "\<lparr>raw_path = ascii ''/comics/abc''\<rparr>"]
    by blast
qed

section \<open>What one call of request does\<close>

lemma catch_network_error_snd: "snd (catch_network_error f s) = snd (f s)"
  unfolding catch_network_error_def
  by (cases "f s") (auto split: sum.splits error.splits)

lemma catch_network_error_fst:
  "fst (catch_network_error f s) =
     (case fst (f s) of
        Inl (TransportFailure tf) \<Rightarrow> Inl NetworkError
      | Inl e \<Rightarrow> Inl e
      | Inr v \<Rightarrow> Inr v)"
  unfolding catch_network_error_def
  by (cases "f s") (auto split: sum.splits error.splits)

lemma request_snd:
  "snd (request env cx endpoint params body no_token s) =
   snd (request_raw env cx endpoint params body no_token s)"
  unfolding request_def by (rule catch_network_error_snd)

lemma issued_request_raw:
  "issued (request_raw env cx endpoint params body no_token) s =
     (if token s = None \<and> \<not> no_token then [Login] else []) @
     (if login_passes env no_token s
      then (case join env (API_HOST env) endpoint (case params of None \<Rightarrow> [] | Some p \<Rightarrow> p) of
              Inl e \<Rightarrow> []
            | Inr url \<Rightarrow>
                [case body of
                   None \<Rightarrow> Get url (build_headers env cx (token_after_login env no_token s) url body)
                 | Some b \<Rightarrow> Post url (build_headers env cx (token_after_login env no_token s) url body) b])
      else [])"
  unfolding issued_def request_raw_def call_login_def transport_def login_passes_def
    token_after_login_def
  by (auto split: prod.splits sum.splits option.splits)

lemma issued_request:
  "issued (request env cx endpoint params body no_token) s =
     (if token s = None \<and> \<not> no_token then [Login] else []) @
     (if login_passes env no_token s
      then (case join env (API_HOST env) endpoint (case params of None \<Rightarrow> [] | Some p \<Rightarrow> p) of
              Inl e \<Rightarrow> []
            | Inr url \<Rightarrow>
                [case body of
                   None \<Rightarrow> Get url (build_headers env cx (token_after_login env no_token s) url body)
                 | Some b \<Rightarrow> Post url (build_headers env cx (token_after_login env no_token s) url body) b])
      else [])"
  using issued_request_raw [of env cx endpoint params body no_token s]
  by (simp add: issued_def request_snd)

lemma token_request:
  "token (snd (request env cx endpoint params body no_token s)) = token_after_login env no_token s"
  unfolding request_snd request_raw_def call_login_def transport_def token_after_login_def
  by (auto split: prod.splits sum.splits option.splits)

lemma build_headers_lookup:
  "map_of (build_headers env cx tok url body) ''Authorization'' =
     Some (HStr (case tok of None \<Rightarrow> [] | Some t \<Rightarrow> t))"
  "map_of (build_headers env cx tok url body) ''Time'' = Some (HBytes (encode (time_text cx)))"
  "map_of (build_headers env cx tok url body) ''Image-Quality'' =
     Some (HStr (case request_headers cx ''X-Image-Quality'' of
                   None \<Rightarrow> ''medium'' | Some q \<Rightarrow> q))"
  "map_of (build_headers env cx tok url body) ''Nonce'' =
     Some (HBytes (encode (hexdigest (md5 env (encode (time_text cx))))))"
  "map_of (build_headers env cx tok url body) ''Signature'' =
     Some (HStr (sign env url (encode (time_text cx))
                   (encode (hexdigest (md5 env (encode (time_text cx))))) (method_bytes body)))"
  by (simp_all add: build_headers_def Let_def split: option.splits)

lemma build_headers_names:
  "map fst (build_headers env cx tok url body) =
     [''Authorization'', ''Time'', ''Image-Quality'', ''Nonce'', ''Signature'']"
  by (simp add: build_headers_def Let_def)


lemma issued_request_join_raises:
  assumes "join env (API_HOST env) endpoint (case params of None \<Rightarrow> [] | Some p \<Rightarrow> p) = Inl err"
  shows "issued (request env cx endpoint params body no_token) s =
           (if token s = None \<and> \<not> no_token then [Login] else [])"
  using issued_request [of env cx endpoint params body no_token s] assms
  by (cases "login_passes env no_token s") simp_all

lemma issued_request_login_raises:
  assumes "\<not> login_passes env no_token s"
  shows "issued (request env cx endpoint params body no_token) s = [Login]"
proof -
  from assms have "token s = None \<and> \<not> no_token"
    by (simp add: login_passes_def split: if_splits)
  then show ?thesis
    using issued_request [of env cx endpoint params body no_token s] assms by simp
qed

lemma transport_issued_request:
  "filter is_transport (issued (request env cx endpoint params body no_token) s) =
     (if login_passes env no_token s
      then (case join env (API_HOST env) endpoint (case params of None \<Rightarrow> [] | Some p \<Rightarrow> p) of
              Inl e \<Rightarrow> []
            | Inr url \<Rightarrow>
                [case body of
                   None \<Rightarrow> Get url (build_headers env cx (token_after_login env no_token s) url body)
                 | Some b \<Rightarrow> Post url (build_headers env cx (token_after_login env no_token s) url body) b])
      else [])"
proof (cases "login_passes env no_token s")
  case False
  then show ?thesis by (simp add: issued_request_login_raises)
next
  case True
  show ?thesis
  proof (cases "join env (API_HOST env) endpoint (case params of None \<Rightarrow> [] | Some p \<Rightarrow> p)")
    case (Inl e)
    then show ?thesis using True by (simp add: issued_request_join_raises [OF Inl])
  next
    case (Inr url)
    then show ?thesis using True
      by (cases body) (simp_all add: issued_request)
  qed
qed

lemma transport_events_all:
  assumes "\<And>url. body = None \<Longrightarrow>
             P (Get url (build_headers env cx (token_after_login env no_token s) url body))"
    and "\<And>url b. body = Some b \<Longrightarrow>
             P (Post url (build_headers env cx (token_after_login env no_token s) url body) b)"
  shows "list_all P (filter is_transport (issued (request env cx endpoint params body no_token) s))"
proof (cases "login_passes env no_token s")
  case False
  then show ?thesis by (simp add: transport_issued_request)
next
  case True
  show ?thesis
  proof (cases "join env (API_HOST env) endpoint (case params of None \<Rightarrow> [] | Some p \<Rightarrow> p)")
    case (Inl e)
    then show ?thesis using True by (simp add: transport_issued_request)
  next
    case (Inr url)
    then show ?thesis using True assms
      by (cases body) (simp_all add: transport_issued_request)
  qed
qed

lemma issued_request_ok:
  assumes "login_passes env no_token s"
    and "join env (API_HOST env) endpoint (case params of None \<Rightarrow> [] | Some p \<Rightarrow> p) = Inr url"
  shows "issued (request env cx endpoint params body no_token) s =
           (if token s = None \<and> \<not> no_token then [Login] else []) @
           [case body of
              None \<Rightarrow> Get url (build_headers env cx (token_after_login env no_token s) url body)
            | Some b \<Rightarrow> Post url (build_headers env cx (token_after_login env no_token s) url body) b]"
  using issued_request [of env cx endpoint params body no_token s] assms by simp

lemma count_login_request:
  "count_list (issued (request env cx endpoint params body no_token) s) Login =
     (if token s = None \<and> \<not> no_token then 1 else 0)"
proof (cases "login_passes env no_token s")
  case False
  then have "token s = None \<and> \<not> no_token"
    by (simp add: login_passes_def split: if_splits)
  then show ?thesis using False by (simp add: issued_request_login_raises)
next
  case True
  show ?thesis
  proof (cases "join env (API_HOST env) endpoint (case params of None \<Rightarrow> [] | Some p \<Rightarrow> p)")
    case (Inl e)
    show ?thesis by (simp add: issued_request_join_raises [OF Inl])
  next
    case (Inr url)
    show ?thesis
      by (cases body) (simp_all add: issued_request_ok [OF True Inr])
  qed
qed

section \<open>Runs on the test double\<close>

lemmas run_defs =
  issued_def request_def catch_network_error_def request_raw_def call_login_def transport_def
  build_headers_def method_bytes_def sign_def example_env_def example_ctx_def example_state_def
  Let_def

lemmas byte_defs =
  ascii_def encode_def encode_char_def lstrip_slash_def lower_def lower_byte_def
  hexdigest_def hex_byte_def hex_digit_def lower_hexdigits_def

lemma run_post:
  "issued (request example_env example_ctx ''comics/advanced-search'' None
             (Some [(''keyword'', PStr ''x'')]) False) example_state =
     [Login,
      Post \<lparr>raw_path = ascii ''/comics/advanced-search''\<rparr>
        [(''Authorization'', HStr ''tok''),
         (''Time'', HBytes (ascii ''1700000001'')),
         (''Image-Quality'', HStr ''medium''),
         (''Nonce'', HBytes (ascii ''31303030303030303731'')),
         (''Signature'', HStr (hexdigest (ascii
            ''kcomics/advanced-search170000000131303030303030303731postaz'')))]
        [(''keyword'', PStr ''x'')]]"
  by (simp add: run_defs byte_defs)

lemma run_get:
  "issued (request example_env example_ctx ''comics/{id}'' (Some [(''id'', PStr ''abc'')])
             None False) (example_state\<lparr>token := Some ''T0''\<rparr>) =
     [Get \<lparr>raw_path = ascii ''/comics/{id}''\<rparr>
        [(''Authorization'', HStr ''T0''),
         (''Time'', HBytes (ascii ''1700000001'')),
         (''Image-Quality'', HStr ''medium''),
         (''Nonce'', HBytes (ascii ''31303030303030303731'')),
         (''Signature'', HStr (hexdigest (ascii
            ''kcomics/{id}170000000131303030303030303731getaz'')))]]"
  by (simp add: run_defs byte_defs)

section \<open>Method selection\<close>



section \<open>The signed headers\<close>

lemma header_simps:
  "header name (Get u hs) = map_of hs name"
  "header name (Post u hs b) = map_of hs name"
  by (simp_all add: header_def)

lemma run_no_token:
  "issued (request example_env example_ctx ''games'' None None True) example_state =
     [Get \<lparr>raw_path = ascii ''/games''\<rparr>
        [(''Authorization'', HStr []),
         (''Time'', HBytes (ascii ''1700000001'')),
         (''Image-Quality'', HStr ''medium''),
         (''Nonce'', HBytes (ascii ''31303030303030303731'')),
         (''Signature'', HStr (hexdigest (ascii
            ''kgames170000000131303030303030303731getaz'')))]]"
  by (simp add: run_defs byte_defs)

lemma run_quality:
  "issued (request example_env (example_ctx_quality ''ultra'') ''games'' None None False)
       (example_state_token ''T0'') =
     [Get \<lparr>raw_path = ascii ''/games''\<rparr>
        [(''Authorization'', HStr ''T0''),
         (''Time'', HBytes (ascii ''1700000001'')),
         (''Image-Quality'', HStr ''ultra''),
         (''Nonce'', HBytes (ascii ''31303030303030303731'')),
         (''Signature'', HStr (hexdigest (ascii
            ''kgames170000000131303030303030303731getaz'')))]]"
  by (simp add: run_defs byte_defs example_ctx_quality_def example_state_token_def)

lemma nonce_example:
  "encode ''1700000001'' = [49, 55, 48, 48, 48, 48, 48, 48, 48, 49]"
  "hexdigest (rev (encode ''1700000001'')) = ''31303030303030303731''"
  "encode ''31303030303030303731'' = ascii ''31303030303030303731''"
  by (simp_all add: byte_defs)

text \<open>
  Claim C3.  In every transport call that \<open>request\<close> issues, the Time header holds the
  encoded text of the clock reading and the Nonce header holds the encoded hexadecimal
  MD5 digest of exactly those bytes.  The nonce is a function of the timestamp bytes
  alone: two calls of \<open>request\<close> that read the same timestamp, whatever their endpoints,
  parameters, bodies and states, send the same nonce.  On the test double, whose MD5
  reverses its input, the timestamp \<open>1700000001\<close> gives the nonce
  \<open>31303030303030303731\<close>, the digits of \<open>1000000071\<close> in hexadecimal.
\<close>

theorem nonce_md5_of_time:
  "list_all
     (\<lambda>e. header ''Time'' e = Some (HBytes (encode (time_text cx))) \<and>
          header ''Nonce'' e = Some (HBytes (encode (hexdigest (md5 env (encode (time_text cx)))))))
     (filter is_transport (issued (request env cx endpoint params body no_token) s))
   \<and> (time_text cx' = time_text cx \<longrightarrow>
        list_all
          (\<lambda>e. header ''Nonce'' e = Some (HBytes (encode (hexdigest (md5 env (encode (time_text cx)))))))
          (filter is_transport (issued (request env cx' endpoint' params' body' no_token') s')))
   \<and> map (header ''Time'')
        (issued (request example_env example_ctx ''games'' None None True) example_state) =
       [Some (HBytes [49, 55, 48, 48, 48, 48, 48, 48, 48, 49])]
   \<and> map (header ''Nonce'')
        (issued (request example_env example_ctx ''games'' None None True) example_state) =
       [Some (HBytes (ascii ''31303030303030303731''))]
   \<and> encode ''1700000001'' = [49, 55, 48, 48, 48, 48, 48, 48, 48, 49]
   \<and> hexdigest (rev (encode ''1700000001'')) = ''31303030303030303731''"
proof -
  have a: "list_all
     (\<lambda>e. header ''Time'' e = Some (HBytes (encode (time_text cx))) \<and>
          header ''Nonce'' e = Some (HBytes (encode (hexdigest (md5 env (encode (time_text cx)))))))
     (filter is_transport (issued (request env cx endpoint params body no_token) s))"
    by (rule transport_events_all) (simp_all add: header_simps build_headers_lookup)
  have b: "time_text cx' = time_text cx \<longrightarrow>
        list_all
          (\<lambda>e. header ''Nonce'' e = Some (HBytes (encode (hexdigest (md5 env (encode (time_text cx)))))))
          (filter is_transport (issued (request env cx' endpoint' params' body' no_token') s'))"
  proof
    assume eq: "time_text cx' = time_text cx"
    show "list_all
          (\<lambda>e. header ''Nonce'' e = Some (HBytes (encode (hexdigest (md5 env (encode (time_text cx)))))))
          (filter is_transport (issued (request env cx' endpoint' params' body' no_token') s'))"
      by (rule transport_events_all) (simp_all add: header_simps build_headers_lookup eq)
  qed
  have c: "map (header ''Time'')
        (issued (request example_env example_ctx ''games'' None None True) example_state) =
       [Some (HBytes [49, 55, 48, 48, 48, 48, 48, 48, 48, 49])]"
    by (simp add: run_no_token header_simps ascii_def)
  have d: "map (header ''Nonce'')
        (issued (request example_env example_ctx ''games'' None None True) example_state) =
       [Some (HBytes (ascii ''31303030303030303731''))]"
    by (simp add: run_no_token header_simps)
  from a b c d nonce_example(1) nonce_example(2) show ?thesis
    by - (intro conjI; assumption)
qed

theorem nonce_md5_of_time_witness:
  "time_text (example_ctx_quality ''high'') = time_text example_ctx
   \<and> list_all
        (\<lambda>e. header ''Nonce'' e = Some (HBytes (ascii ''31303030303030303731'')))
        (filter is_transport
           (issued (request example_env (example_ctx_quality ''high'') ''comics/advanced-search'' None
              (Some [(''keyword'', PStr ''x'')]) False) example_state))
   \<and> length (filter is_transport
           (issued (request example_env (example_ctx_quality ''high'') ''comics/advanced-search'' None
              (Some [(''keyword'', PStr ''x'')]) False) example_state)) = 1"
proof -
  have t: "time_text (example_ctx_quality ''high'') = time_text example_ctx"
    by (simp add: example_ctx_quality_def)
  have n: "encode (hexdigest (md5 example_env (encode (time_text example_ctx)))) =
             ascii ''31303030303030303731''"
    by (simp add: example_env_def example_ctx_def byte_defs)
  have l: "length (filter is_transport
           (issued (request example_env (example_ctx_quality ''high'') ''comics/advanced-search'' None
              (Some [(''keyword'', PStr ''x'')]) False) example_state)) = 1"
    by (simp add: transport_issued_request login_passes_def example_env_def example_state_def)
  show ?thesis
    using t l
      nonce_md5_of_time [where env = example_env and cx = example_ctx
        and cx' = "example_ctx_quality ''high''" and endpoint' = "''comics/advanced-search''"
        and params' = None and body' = "Some [(''keyword'', PStr ''x'')]"
        and no_token' = False and s' = example_state]
    by (simp add: n)
qed

section \<open>Login and the Authorization header\<close>

text \<open>
  Claim C5.  A call of \<open>request\<close> calls \<open>login\<close> once when the stored token is null
  and \<open>no_token\<close> is false, and not at all otherwise.  The token that the client holds
  after the call is the one \<open>login\<close> left there when it was called, and the token the
  client had before when it was not; every transport call issued carries that token as
  its Authorization header, and the empty string when there is none.  On the test
  double: with no token and \<open>no_token\<close> false, a login is logged and the header is
  the token \<open>tok\<close> that the login stored; with no token and \<open>no_token\<close> true, no login
  is logged and the header is empty; with the token \<open>T0\<close> stored, no login is logged
  and the header is \<open>T0\<close>; a rejected login is logged, and nothing is sent.
\<close>

theorem login_iff_token_unset:
  "count_list (issued (request env cx endpoint params body no_token) s) Login =
     (if token s = None \<and> \<not> no_token then 1 else 0)
   \<and> (Login \<in> set (issued (request env cx endpoint params body no_token) s)
        \<longleftrightarrow> token s = None \<and> \<not> no_token)
   \<and> token (snd (request env cx endpoint params body no_token s)) =
        (if token s = None \<and> \<not> no_token then fst (snd (login env None (world s))) else token s)
   \<and> list_all
        (\<lambda>e. header ''Authorization'' e =
               Some (HStr (case token (snd (request env cx endpoint params body no_token s)) of
                             None \<Rightarrow> [] | Some t \<Rightarrow> t)))
        (filter is_transport (issued (request env cx endpoint params body no_token) s))
   \<and> map (\<lambda>e. (e = Login, header ''Authorization'' e))
        (issued (request example_env example_ctx ''comics/advanced-search'' None
           (Some [(''keyword'', PStr ''x'')]) False) example_state) =
       [(True, None), (False, Some (HStr ''tok''))]
   \<and> map (\<lambda>e. (e = Login, header ''Authorization'' e))
        (issued (request example_env example_ctx ''games'' None None True) example_state) =
       [(False, Some (HStr []))]
   \<and> map (\<lambda>e. (e = Login, header ''Authorization'' e))
        (issued (request example_env example_ctx ''comics/{id}'' (Some [(''id'', PStr ''abc'')])
           None False) (example_state\<lparr>token := Some ''T0''\<rparr>)) =
       [(False, Some (HStr ''T0''))]
   \<and> issued (request rejecting_env example_ctx ''games'' None None False) example_state = [Login]
   \<and> fst (request rejecting_env example_ctx ''games'' None None False example_state) = Inl AuthError"
proof -
  let ?evs = "issued (request env cx endpoint params body no_token) s"
  have a: "count_list ?evs Login = (if token s = None \<and> \<not> no_token then 1 else 0)"
    by (rule count_login_request)
  have b: "Login \<in> set ?evs \<longleftrightarrow> token s = None \<and> \<not> no_token"
    using a count_list_0_iff [of ?evs Login] by (auto split: if_splits)
  have c: "token (snd (request env cx endpoint params body no_token s)) =
        (if token s = None \<and> \<not> no_token then fst (snd (login env None (world s))) else token s)"
    by (simp add: token_request token_after_login_def)
  have d: "list_all
        (\<lambda>e. header ''Authorization'' e =
               Some (HStr (case token (snd (request env cx endpoint params body no_token s)) of
                             None \<Rightarrow> [] | Some t \<Rightarrow> t)))
        (filter is_transport ?evs)"
    by (rule transport_events_all) (simp_all add: header_simps build_headers_lookup token_request)
  have e1: "map (\<lambda>e. (e = Login, header ''Authorization'' e))
        (issued (request example_env example_ctx ''comics/advanced-search'' None
           (Some [(''keyword'', PStr ''x'')]) False) example_state) =
       [(True, None), (False, Some (HStr ''tok''))]"
    by (simp add: run_post header_simps header_def)
  have e2: "map (\<lambda>e. (e = Login, header ''Authorization'' e))
        (issued (request example_env example_ctx ''games'' None None True) example_state) =
       [(False, Some (HStr []))]"
    by (simp add: run_no_token header_simps)
  have e3: "map (\<lambda>e. (e = Login, header ''Authorization'' e))
        (issued (request example_env example_ctx ''comics/{id}'' (Some [(''id'', PStr ''abc'')])
           None False) (example_state\<lparr>token := Some ''T0''\<rparr>)) =
       [(False, Some (HStr ''T0''))]"
    by (simp add: run_get header_simps)
  have e4: "issued (request rejecting_env example_ctx ''games'' None None False) example_state = [Login]"
    by (simp add: run_defs rejecting_env_def)
  have e5: "fst (request rejecting_env example_ctx ''games'' None None False example_state) = Inl AuthError"
    by (simp add: run_defs rejecting_env_def)
  from a b c d e1 e2 e3 e4 e5 show ?thesis
    by - (intro conjI; assumption)
qed

theorem login_iff_token_unset_witness:
  "token example_state = None
   \<and> count_list (issued (request example_env example_ctx ''games'' None None False) example_state) Login = 1
   \<and> Login \<in> set (issued (request example_env example_ctx ''games'' None None False) example_state)
   \<and> token (snd (request example_env example_ctx ''games'' None None False example_state)) = Some ''tok''
   \<and> count_list (issued (request example_env example_ctx ''games'' None None True) example_state) Login = 0
   \<and> token (snd (request example_env example_ctx ''games'' None None True example_state)) = None"
proof -
  have t: "token example_state = None" by (simp add: example_state_def)
  have l: "fst (snd (login example_env None (world example_state))) = Some ''tok''"
    by (simp add: example_env_def)
  show ?thesis
    using t l
      login_iff_token_unset [where env = example_env and cx = example_ctx and endpoint = "''games''"
        and params = None and body = None and no_token = False and s = example_state]
      login_iff_token_unset [where env = example_env and cx = example_ctx and endpoint = "''games''"
        and params = None and body = None and no_token = True and s = example_state]
    by simp
qed

section \<open>The Image-Quality header\<close>

lemma ImageQuality_values:
  "map ImageQuality_value [low, medium, high, original] = [''low'', ''medium'', ''high'', ''original'']"
  by simp

text \<open>
  Claim C8, as stated, fails: \<open>request\<close> copies the caller's \<open>X-Image-Quality\<close> entry
  into the Image-Quality header without comparing it with the members of
  \<open>ImageQuality\<close>.  With the entry \<open>ultra\<close> the header sent is \<open>ultra\<close>, which is none
  of \<open>low\<close>, \<open>medium\<close>, \<open>high\<close>, \<open>original\<close>.
\<close>

theorem image_quality_unchecked:
  "map (header ''Image-Quality'')
     (issued (request example_env (example_ctx_quality ''ultra'') ''games'' None None False)
        (example_state_token ''T0'')) = [Some (HStr ''ultra'')]
   \<and> ''ultra'' \<notin> set (map ImageQuality_value [low, medium, high, original])"
  by (simp add: run_quality header_simps)

text \<open>
  Claim C8, amended.  In every transport call that \<open>request\<close> issues, the Image-Quality
  header is the caller's \<open>X-Image-Quality\<close> entry when there is one, whatever its value,
  and \<open>medium\<close> when the caller supplies none; so it is one of \<open>low\<close>, \<open>medium\<close>,
  \<open>high\<close>, \<open>original\<close> whenever the entry, if present, is the value of a member of
  \<open>ImageQuality\<close>.  On the test double, no entry gives \<open>medium\<close> and the entry
  \<open>original\<close> gives \<open>original\<close>.
\<close>

theorem image_quality_passthrough:
  "list_all
     (\<lambda>e. header ''Image-Quality'' e =
            Some (HStr (case request_headers cx ''X-Image-Quality'' of
                          None \<Rightarrow> ''medium'' | Some q \<Rightarrow> q)))
     (filter is_transport (issued (request env cx endpoint params body no_token) s))
   \<and> (request_headers cx ''X-Image-Quality'' = None \<longrightarrow>
        list_all (\<lambda>e. header ''Image-Quality'' e = Some (HStr ''medium''))
          (filter is_transport (issued (request env cx endpoint params body no_token) s)))
   \<and> (request_headers cx ''X-Image-Quality'' = Some (ImageQuality_value q) \<longrightarrow>
        list_all (\<lambda>e. header ''Image-Quality'' e = Some (HStr (ImageQuality_value q)))
          (filter is_transport (issued (request env cx endpoint params body no_token) s)))
   \<and> map ImageQuality_value [low, medium, high, original] =
        [''low'', ''medium'', ''high'', ''original'']
   \<and> map (header ''Image-Quality'')
        (issued (request example_env example_ctx ''games'' None None True) example_state) =
       [Some (HStr ''medium'')]
   \<and> map (header ''Image-Quality'')
        (issued (request example_env (example_ctx_quality ''original'') ''games'' None None True)
           example_state) =
       [Some (HStr ''original'')]"
proof -
  let ?evs = "filter is_transport (issued (request env cx endpoint params body no_token) s)"
  have a: "list_all
     (\<lambda>e. header ''Image-Quality'' e =
            Some (HStr (case request_headers cx ''X-Image-Quality'' of
                          None \<Rightarrow> ''medium'' | Some q \<Rightarrow> q))) ?evs"
    by (rule transport_events_all) (simp_all add: header_simps build_headers_lookup)
  have b: "request_headers cx ''X-Image-Quality'' = None \<longrightarrow>
        list_all (\<lambda>e. header ''Image-Quality'' e = Some (HStr ''medium'')) ?evs"
  proof
    assume n: "request_headers cx ''X-Image-Quality'' = None"
    show "list_all (\<lambda>e. header ''Image-Quality'' e = Some (HStr ''medium'')) ?evs"
      using a by (simp add: n)
  qed
  have c: "request_headers cx ''X-Image-Quality'' = Some (ImageQuality_value q) \<longrightarrow>
        list_all (\<lambda>e. header ''Image-Quality'' e = Some (HStr (ImageQuality_value q))) ?evs"
  proof
    assume n: "request_headers cx ''X-Image-Quality'' = Some (ImageQuality_value q)"
    show "list_all (\<lambda>e. header ''Image-Quality'' e = Some (HStr (ImageQuality_value q))) ?evs"
      using a by (simp add: n)
  qed
  have d: "map (header ''Image-Quality'')
        (issued (request example_env example_ctx ''games'' None None True) example_state) =
       [Some (HStr ''medium'')]"
    by (simp add: run_no_token header_simps)
  have e: "map (header ''Image-Quality'')
        (issued (request example_env (example_ctx_quality ''original'') ''games'' None None True)
           example_state) =
       [Some (HStr ''original'')]"
    by (simp add: run_defs example_ctx_quality_def header_simps)
  from a b c ImageQuality_values d e show ?thesis
    by - (intro conjI; assumption)
qed

theorem image_quality_passthrough_witness:
  "request_headers example_ctx ''X-Image-Quality'' = None
   \<and> list_all (\<lambda>e. header ''Image-Quality'' e = Some (HStr ''medium''))
        (filter is_transport
           (issued (request example_env example_ctx ''games'' None None True) example_state))
   \<and> request_headers (example_ctx_quality ''high'') ''X-Image-Quality'' = Some (ImageQuality_value high)
   \<and> list_all (\<lambda>e. header ''Image-Quality'' e = Some (HStr ''high''))
        (filter is_transport
           (issued (request example_env (example_ctx_quality ''high'') ''games'' None None True)
              example_state))
   \<and> length (filter is_transport
           (issued (request example_env (example_ctx_quality ''high'') ''games'' None None True)
              example_state)) = 1"
proof -
  have n: "request_headers example_ctx ''X-Image-Quality'' = None"
    by (simp add: example_ctx_def)
  have h: "request_headers (example_ctx_quality ''high'') ''X-Image-Quality'' = Some (ImageQuality_value high)"
    by (simp add: example_ctx_quality_def)
  have l: "length (filter is_transport
           (issued (request example_env (example_ctx_quality ''high'') ''games'' None None True)
              example_state)) = 1"
    by (simp add: transport_issued_request login_passes_def example_env_def example_state_def)
  show ?thesis
    using n h l
      image_quality_passthrough [where env = example_env and cx = example_ctx
        and endpoint = "''games''" and params = None and body = None and no_token = True
        and s = example_state]
      image_quality_passthrough [where env = example_env and cx = "example_ctx_quality ''high''"
        and endpoint = "''games''" and params = None and body = None and no_token = True
        and s = example_state and q = high]
    by simp
qed

section \<open>Errors\<close>

lemma transport_fst:
  "fst (transport env url hs None s) = fst (client_get env url hs (world s))"
  "fst (transport env url hs (Some b) s) = fst (client_post env url hs b (world s))"
  by (simp_all add: transport_def split: prod.splits)

lemma request_raw_login_raises:
  assumes "token s = None \<and> \<not> no_token" and "fst (login env (token s) (world s)) = Inl e"
  shows "fst (request_raw env cx endpoint params body no_token s) = Inl e"
proof -
  obtain r tok w where l: "login env (token s) (world s) = (r, tok, w)"
    by (cases "login env (token s) (world s)") auto
  with assms have "r = Inl e" by simp
  then show ?thesis
    using assms(1) l by (simp add: request_raw_def call_login_def)
qed

lemma request_raw_after_login:
  assumes "login_passes env no_token s"
  shows "fst (request_raw env cx endpoint params body no_token s) =
     (case join env (API_HOST env) endpoint (case params of None \<Rightarrow> [] | Some p \<Rightarrow> p) of
        Inl e \<Rightarrow> Inl e
      | Inr url \<Rightarrow>
          (case fst (transport env url
                       (build_headers env cx (token (state_after_login env no_token s)) url body)
                       body (state_after_login env no_token s)) of
             Inl e \<Rightarrow> Inl e
           | Inr response \<Rightarrow> json env response))"
proof -
  have step: "(if token s = None \<and> \<not> no_token then call_login env s else (Inr (), s)) =
                (Inr (), state_after_login env no_token s)"
  proof (cases "token s = None \<and> \<not> no_token")
    case True
    with assms have "fst (login env (token s) (world s)) = Inr ()"
      by (simp add: login_passes_def)
    moreover obtain r tok w where l: "login env (token s) (world s) = (r, tok, w)"
      by (cases "login env (token s) (world s)") auto
    ultimately have "call_login env s =
        (Inr (), s\<lparr>token := tok, world := w, trace := trace s @ [Login]\<rparr>)"
      by (simp add: call_login_def)
    then show ?thesis
      by (simp add: if_P [OF True] state_after_login_def)
  next
    case False
    show ?thesis
      by (simp only: if_not_P [OF False] state_after_login_def)
  qed
  show ?thesis
    unfolding request_raw_def step
    by (simp split: sum.splits prod.splits)
qed

lemma run_errors:
  "fst (request (failing_env ConnectionRefused) example_ctx ''games'' None None False example_state)
     = Inl NetworkError"
  "fst (request (failing_env Timeout) example_ctx ''comics/advanced-search'' None
          (Some [(''keyword'', PStr ''x'')]) False example_state) = Inl NetworkError"
  "fst (request (failing_env MalformedResponse) example_ctx ''games'' None None False example_state)
     = Inl NetworkError"
  "fst (request undecodable_env example_ctx ''games'' None None False example_state)
     = Inl DecodeError"
  "fst (request rejecting_env example_ctx ''games'' None None False example_state) = Inl AuthError"
  "fst (request example_env example_ctx [] None None False example_state) = Inl BuildError"
  "fst (request example_env example_ctx ''games'' None None False example_state) = Inr ''got''"
  by (simp_all add: run_defs failing_env_def undecodable_env_def rejecting_env_def)

text \<open>
  Claim C9.  Under \<open>catch_network_error\<close>, a call of \<open>request\<close> whose body raises a
  transport-level failure, whichever of the three, raises the one network error
  instead; every other error of the body is raised unchanged, a result is returned
  unchanged, and the state is what the body left.  The body raises what its steps
  raise: the error of \<open>login\<close> when login is called and raises, and after the login
  step the error of \<open>_join\<close>, else the error of the \<open>get\<close> or \<open>post\<close>, else the error
  or the value of \<open>json\<close>.  So a failure of the HTTP client surfaces as the network
  error, a JSON parse failure as the decode error, which is another kind, and
  \<open>request\<close> returns a value only when \<open>json\<close> returned it.  On the test double: a
  refused connection, a timeout and a malformed response all give the network error, a
  response that is not JSON gives the decode error, a rejected login gives the
  authorization error, an endpoint that \<open>_join\<close> refuses gives the build error.
\<close>

theorem request_error_kinds:
  "(fst (request_raw env cx endpoint params body no_token s) = Inl (TransportFailure tf) \<longrightarrow>
      fst (request env cx endpoint params body no_token s) = Inl NetworkError)
   \<and> (fst (request_raw env cx endpoint params body no_token s) = Inl e \<and>
        (\<forall>tf'. e \<noteq> TransportFailure tf') \<longrightarrow>
      fst (request env cx endpoint params body no_token s) = Inl e)
   \<and> (fst (request env cx endpoint params body no_token s) = Inr v \<longleftrightarrow>
        fst (request_raw env cx endpoint params body no_token s) = Inr v)
   \<and> snd (request env cx endpoint params body no_token s) =
        snd (request_raw env cx endpoint params body no_token s)
   \<and> (token s = None \<and> \<not> no_token \<and> fst (login env (token s) (world s)) = Inl e \<longrightarrow>
        fst (request_raw env cx endpoint params body no_token s) = Inl e)
   \<and> (login_passes env no_token s \<longrightarrow>
        fst (request_raw env cx endpoint params body no_token s) =
          (case join env (API_HOST env) endpoint (case params of None \<Rightarrow> [] | Some p \<Rightarrow> p) of
             Inl e \<Rightarrow> Inl e
           | Inr url \<Rightarrow>
               (case fst (transport env url
                            (build_headers env cx (token (state_after_login env no_token s)) url body)
                            body (state_after_login env no_token s)) of
                  Inl e \<Rightarrow> Inl e
                | Inr response \<Rightarrow> json env response)))
   \<and> fst (transport env url hs None s) = fst (client_get env url hs (world s))
   \<and> fst (transport env url hs (Some b) s) = fst (client_post env url hs b (world s))
   \<and> (login_passes env no_token s \<and>
        join env (API_HOST env) endpoint (case params of None \<Rightarrow> [] | Some p \<Rightarrow> p) = Inr url \<and>
        fst (transport env url
               (build_headers env cx (token (state_after_login env no_token s)) url body)
               body (state_after_login env no_token s)) = Inl (TransportFailure tf) \<longrightarrow>
        fst (request env cx endpoint params body no_token s) = Inl NetworkError)
   \<and> (login_passes env no_token s \<and>
        join env (API_HOST env) endpoint (case params of None \<Rightarrow> [] | Some p \<Rightarrow> p) = Inr url \<and>
        fst (transport env url
               (build_headers env cx (token (state_after_login env no_token s)) url body)
               body (state_after_login env no_token s)) = Inr response \<and>
        json env response = Inl DecodeError \<longrightarrow>
        fst (request env cx endpoint params body no_token s) = Inl DecodeError)
   \<and> DecodeError \<noteq> NetworkError
   \<and> fst (request (failing_env ConnectionRefused) example_ctx ''games'' None None False example_state)
        = Inl NetworkError
   \<and> fst (request (failing_env Timeout) example_ctx ''comics/advanced-search'' None
             (Some [(''keyword'', PStr ''x'')]) False example_state) = Inl NetworkError
   \<and> fst (request (failing_env MalformedResponse) example_ctx ''games'' None None False example_state)
        = Inl NetworkError
   \<and> fst (request undecodable_env example_ctx ''games'' None None False example_state)
        = Inl DecodeError
   \<and> fst (request rejecting_env example_ctx ''games'' None None False example_state) = Inl AuthError
   \<and> fst (request example_env example_ctx [] None None False example_state) = Inl BuildError
   \<and> fst (request example_env example_ctx ''games'' None None False example_state) = Inr ''got''"
proof -
  let ?raw = "request_raw env cx endpoint params body no_token s"
  let ?req = "request env cx endpoint params body no_token s"
  have fst_req: "fst ?req =
     (case fst ?raw of
        Inl (TransportFailure tf) \<Rightarrow> Inl NetworkError
      | Inl e \<Rightarrow> Inl e
      | Inr v \<Rightarrow> Inr v)"
    unfolding request_def by (rule catch_network_error_fst)
  have a: "fst ?raw = Inl (TransportFailure tf) \<longrightarrow> fst ?req = Inl NetworkError"
    by (simp add: fst_req)
  have b: "fst ?raw = Inl e \<and> (\<forall>tf'. e \<noteq> TransportFailure tf') \<longrightarrow> fst ?req = Inl e"
    by (cases e) (simp_all add: fst_req)
  have c: "fst ?req = Inr v \<longleftrightarrow> fst ?raw = Inr v"
    by (simp add: fst_req split: sum.splits error.splits)
  have d: "snd ?req = snd ?raw"
    by (rule request_snd)
  have e: "token s = None \<and> \<not> no_token \<and> fst (login env (token s) (world s)) = Inl e \<longrightarrow>
        fst ?raw = Inl e"
    using request_raw_login_raises [of s no_token env e cx endpoint params body] by blast
  have f: "login_passes env no_token s \<longrightarrow>
        fst ?raw =
          (case join env (API_HOST env) endpoint (case params of None \<Rightarrow> [] | Some p \<Rightarrow> p) of
             Inl e \<Rightarrow> Inl e
           | Inr url \<Rightarrow>
               (case fst (transport env url
                            (build_headers env cx (token (state_after_login env no_token s)) url body)
                            body (state_after_login env no_token s)) of
                  Inl e \<Rightarrow> Inl e
                | Inr response \<Rightarrow> json env response))"
    using request_raw_after_login [of env no_token s cx endpoint params body] by blast
  have g: "login_passes env no_token s \<and>
        join env (API_HOST env) endpoint (case params of None \<Rightarrow> [] | Some p \<Rightarrow> p) = Inr url \<and>
        fst (transport env url
               (build_headers env cx (token (state_after_login env no_token s)) url body)
               body (state_after_login env no_token s)) = Inl (TransportFailure tf) \<longrightarrow>
        fst ?req = Inl NetworkError"
  proof
    assume h: "login_passes env no_token s \<and>
        join env (API_HOST env) endpoint (case params of None \<Rightarrow> [] | Some p \<Rightarrow> p) = Inr url \<and>
        fst (transport env url
               (build_headers env cx (token (state_after_login env no_token s)) url body)
               body (state_after_login env no_token s)) = Inl (TransportFailure tf)"
    then have "fst ?raw = Inl (TransportFailure tf)"
      using request_raw_after_login [of env no_token s cx endpoint params body] by simp
    then show "fst ?req = Inl NetworkError" by (simp add: fst_req)
  qed
  have h: "login_passes env no_token s \<and>
        join env (API_HOST env) endpoint (case params of None \<Rightarrow> [] | Some p \<Rightarrow> p) = Inr url \<and>
        fst (transport env url
               (build_headers env cx (token (state_after_login env no_token s)) url body)
               body (state_after_login env no_token s)) = Inr response \<and>
        json env response = Inl DecodeError \<longrightarrow>
        fst ?req = Inl DecodeError"
  proof
    assume h: "login_passes env no_token s \<and>
        join env (API_HOST env) endpoint (case params of None \<Rightarrow> [] | Some p \<Rightarrow> p) = Inr url \<and>
        fst (transport env url
               (build_headers env cx (token (state_after_login env no_token s)) url body)
               body (state_after_login env no_token s)) = Inr response \<and>
        json env response = Inl DecodeError"
    then have "fst ?raw = Inl DecodeError"
      using request_raw_after_login [of env no_token s cx endpoint params body] by simp
    then show "fst ?req = Inl DecodeError" by (simp add: fst_req)
  qed
  have i: "DecodeError \<noteq> NetworkError" by simp
  from a b c d e f transport_fst(1) [of env url hs s] transport_fst(2) [of env url hs b s] g h i
    run_errors(1) run_errors(2) run_errors(3) run_errors(4) run_errors(5) run_errors(6)
    run_errors(7)
  show ?thesis
    by - (intro conjI; assumption)
qed

theorem request_error_kinds_witness:
  "login_passes (failing_env Timeout) False example_state
   \<and> join (failing_env Timeout) (API_HOST (failing_env Timeout)) ''games''
        (case None of None \<Rightarrow> [] | Some p \<Rightarrow> p) = Inr \<lparr>raw_path = ascii ''/games''\<rparr>
   \<and> fst (transport (failing_env Timeout) \<lparr>raw_path = ascii ''/games''\<rparr>
          (build_headers (failing_env Timeout) example_ctx
             (token (state_after_login (failing_env Timeout) False example_state))
             \<lparr>raw_path = ascii ''/games''\<rparr> None)
          None (state_after_login (failing_env Timeout) False example_state))
        = Inl (TransportFailure Timeout)
   \<and> fst (request_raw (failing_env Timeout) example_ctx ''games'' None None False example_state)
        = Inl (TransportFailure Timeout)
   \<and> fst (request (failing_env Timeout) example_ctx ''games'' None None False example_state)
        = Inl NetworkError"
proof -
  have p: "login_passes (failing_env Timeout) False example_state"
    by (simp add: login_passes_def failing_env_def example_env_def example_state_def)
  have j: "join (failing_env Timeout) (API_HOST (failing_env Timeout)) ''games''
        (case None of None \<Rightarrow> [] | Some p \<Rightarrow> p) = Inr \<lparr>raw_path = ascii ''/games''\<rparr>"
    by (simp add: failing_env_def example_env_def)
  have t: "fst (transport (failing_env Timeout) \<lparr>raw_path = ascii ''/games''\<rparr>
          (build_headers (failing_env Timeout) example_ctx
             (token (state_after_login (failing_env Timeout) False example_state))
             \<lparr>raw_path = ascii ''/games''\<rparr> None)
          None (state_after_login (failing_env Timeout) False example_state))
        = Inl (TransportFailure Timeout)"
    by (simp add: transport_def failing_env_def example_env_def)
  show ?thesis
    using p j t
      request_error_kinds [where env = "failing_env Timeout" and cx = example_ctx
        and endpoint = "''games''" and params = None and body = None and no_token = False
        and s = example_state and tf = Timeout and url = "\<lparr>raw_path = ascii ''/games''\<rparr>"]
    by simp
qed

end
